theory Spec2Isabelle
  imports Complex_Main
begin

section \<open>Data model\<close>

text \<open>
  The repository holds two example clients of an OpenAI-compatible HTTP proxy:
  \<^verbatim>\<open>examples/python_httpx_client.py\<close> (class \<^verbatim>\<open>BedrockOpenAIClient\<close>, asynchronous) and
  \<^verbatim>\<open>examples/python_sync_client.py\<close> (class \<^verbatim>\<open>BedrockOpenAIClientSync\<close>, blocking).
  Python strings are modelled as \<open>string\<close> (non-ASCII characters as their UTF-8 bytes),
  Python's unbounded \<open>int\<close> as \<open>int\<close>, and a \<open>float\<close> that is only passed through as
  \<open>real\<close>. A \<open>dict\<close> literal is an association list in the order the source writes it.
\<close>

datatype json =
    JNull
  | JBool bool
  | JInt int
  | JFloat real
  | JStr string
  | JArr "json list"
  | JObj "(string \<times> json) list"

datatype http_method = GET | POST

text \<open>What one call of \<^verbatim>\<open>client.post(...)\<close> or \<^verbatim>\<open>client.get(...)\<close> hands to the transport.\<close>

record request =
  verb :: http_method
  url :: string
  req_headers :: "(string \<times> string) list"
  json_body :: "json option"
  timeout :: real

record response =
  status_code :: int
  text_of :: string

datatype failure = NetworkError string | TimeoutException string

datatype outcome = Responded response | Failed failure

datatype error =
    HTTPStatusError response
  | TransportError failure
  | DecodeError string
  | KeyError json
  | IndexError
  | TypeError

text \<open>The object both classes build in \<^verbatim>\<open>__init__\<close>: two attributes.\<close>

record client =
  base_url :: string
  headers :: "(string \<times> string) list"

text \<open>
  What a run does that an observer can see: lines printed, client objects constructed,
  requests handed to the transport, in the order they happen.
\<close>

datatype event = Printed string | Constructed client | Issued request

fun issued :: "event list \<Rightarrow> request list" where
  "issued [] = []"
| "issued (Issued q # es) = q # issued es"
| "issued (_ # es) = issued es"

text \<open>
  The environment of the clients: the remote service behind the httpx transport (its answer
  may depend on the requests issued before), the JSON decoder behind \<^verbatim>\<open>response.json()\<close>,
  and the renderings \<^verbatim>\<open>json.dumps(_, indent=2)\<close> and \<^verbatim>\<open>str(_)\<close> that the drivers print with.
\<close>

record lib =
  send :: "request list \<Rightarrow> request \<Rightarrow> outcome"
  loads :: "string \<Rightarrow> json option"
  dumps :: "json \<Rightarrow> string"
  str_json :: "json \<Rightarrow> string"
  str_int :: "int \<Rightarrow> string"
  str_error :: "error \<Rightarrow> string"

section \<open>The clients\<close>

text \<open>Python's \<^verbatim>\<open>s.rstrip(chars)\<close>: drop every trailing character that occurs in \<open>chars\<close>.\<close>

definition rstrip :: "string \<Rightarrow> string \<Rightarrow> string" where
  "rstrip chars s = rev (dropWhile (\<lambda>c. c \<in> set chars) (rev s))"

text \<open>\<^verbatim>\<open>BedrockOpenAIClient.__init__(self, base_url, aws_bearer_token)\<close>\<close>

definition BedrockOpenAIClient_init :: "string \<Rightarrow> string \<Rightarrow> client" where
  "BedrockOpenAIClient_init base_url' aws_bearer_token =
     \<lparr>base_url = rstrip ''/'' base_url',
      headers = [(''Content-Type'', ''application/json''),
                 (''Authorization'', ''Bearer '' @ aws_bearer_token)]\<rparr>"

text \<open>\<^verbatim>\<open>BedrockOpenAIClientSync.__init__(self, base_url, api_key)\<close>\<close>

definition BedrockOpenAIClientSync_init :: "string \<Rightarrow> string \<Rightarrow> client" where
  "BedrockOpenAIClientSync_init base_url' api_key =
     \<lparr>base_url = rstrip ''/'' base_url',
      headers = [(''Content-Type'', ''application/json''),
                 (''Authorization'', ''Bearer '' @ api_key)]\<rparr>"

text \<open>
  A method runs on the object and the event log and returns its result (or the exception
  it raises) together with the object and the log as it leaves them.
\<close>

type_synonym 'a prog = "client \<times> event list \<Rightarrow> (error + 'a) \<times> client \<times> event list"

text \<open>
  \<^verbatim>\<open>client.post(url, headers=, json=, timeout=)\<close> and \<^verbatim>\<open>client.get(url, headers=, timeout=)\<close>:
  one request goes to the transport; a transport failure is raised as a TransportError.
\<close>

definition post :: "lib \<Rightarrow> string \<Rightarrow> (string \<times> string) list \<Rightarrow> json \<Rightarrow> real \<Rightarrow> response prog" where
  "post l u hs payload t = (\<lambda>(self, evs).
     let q = \<lparr>verb = POST, url = u, req_headers = hs, json_body = Some payload, timeout = t\<rparr>
     in (case send l (issued evs) q of
           Failed f \<Rightarrow> Inl (TransportError f)
         | Responded r \<Rightarrow> Inr r,
         self, evs @ [Issued q]))"

definition get :: "lib \<Rightarrow> string \<Rightarrow> (string \<times> string) list \<Rightarrow> real \<Rightarrow> response prog" where
  "get l u hs t = (\<lambda>(self, evs).
     let q = \<lparr>verb = GET, url = u, req_headers = hs, json_body = None, timeout = t\<rparr>
     in (case send l (issued evs) q of
           Failed f \<Rightarrow> Inl (TransportError f)
         | Responded r \<Rightarrow> Inr r,
         self, evs @ [Issued q]))"

text \<open>
  Modelled from the spec: httpx's \<^verbatim>\<open>Response.raise_for_status()\<close> is library code, not in the
  repository. The spec's words: on a non-2xx status the call fails with an HttpStatusError
  carrying the status code and raw response body.
\<close>

definition raise_for_status :: "response \<Rightarrow> error + response" where
  "raise_for_status r =
     (if 200 \<le> status_code r \<and> status_code r \<le> 299 then Inr r else Inl (HTTPStatusError r))"

text \<open>
  Modelled from the spec: httpx's \<^verbatim>\<open>Response.json()\<close> is library code, not in the repository.
  The spec's words: on success the body is parsed as JSON and returned; malformed JSON fails
  with a DecodeError. The decoder itself is the parameter \<open>loads\<close>, \<open>None\<close> on a malformed body.
\<close>

definition response_json :: "lib \<Rightarrow> response \<Rightarrow> error + json" where
  "response_json l r =
     (case loads l (text_of r) of None \<Rightarrow> Inl (DecodeError (text_of r)) | Some j \<Rightarrow> Inr j)"

text \<open>
  \<^verbatim>\<open>BedrockOpenAIClient.chat_completion(self, messages, model, temperature, max_tokens, stream)\<close>.
  The signature's defaults are \<^verbatim>\<open>model="gpt-3.5-turbo"\<close>, \<^verbatim>\<open>temperature=0.7\<close>,
  \<^verbatim>\<open>max_tokens=1000\<close>, \<^verbatim>\<open>stream=False\<close>; a caller that omits an argument passes the default.
\<close>

definition chat_completion :: "lib \<Rightarrow> json list \<Rightarrow> string \<Rightarrow> real \<Rightarrow> int \<Rightarrow> bool \<Rightarrow> json prog" where
  "chat_completion l messages model temperature max_tokens stream = (\<lambda>(self, evs).
     let payload = JObj [(''model'', JStr model),
                         (''messages'', JArr messages),
                         (''temperature'', JFloat temperature),
                         (''max_tokens'', JInt max_tokens),
                         (''stream'', JBool stream)]
     in (case post l (base_url self @ ''/v1/chat/completions'') (headers self) payload 30 (self, evs) of
           (Inl e, st) \<Rightarrow> (Inl e, st)
         | (Inr response, st) \<Rightarrow>
             (case raise_for_status response of
                Inl e \<Rightarrow> (Inl e, st)
              | Inr response \<Rightarrow> (response_json l response, st))))"

text \<open>\<^verbatim>\<open>BedrockOpenAIClient.list_models(self)\<close>\<close>

definition list_models :: "lib \<Rightarrow> json prog" where
  "list_models l = (\<lambda>(self, evs).
     case get l (base_url self @ ''/v1/models'') (headers self) 10 (self, evs) of
       (Inl e, st) \<Rightarrow> (Inl e, st)
     | (Inr response, st) \<Rightarrow>
         (case raise_for_status response of
            Inl e \<Rightarrow> (Inl e, st)
          | Inr response \<Rightarrow> (response_json l response, st)))"

text \<open>
  \<^verbatim>\<open>BedrockOpenAIClientSync.chat_completion(self, messages, model, temperature, max_tokens)\<close>:
  the signature has no \<^verbatim>\<open>stream\<close> parameter and the payload no \<^verbatim>\<open>"stream"\<close> entry.
\<close>

definition chat_completion_sync :: "lib \<Rightarrow> json list \<Rightarrow> string \<Rightarrow> real \<Rightarrow> int \<Rightarrow> json prog" where
  "chat_completion_sync l messages model temperature max_tokens = (\<lambda>(self, evs).
     let payload = JObj [(''model'', JStr model),
                         (''messages'', JArr messages),
                         (''temperature'', JFloat temperature),
                         (''max_tokens'', JInt max_tokens)]
     in (case post l (base_url self @ ''/v1/chat/completions'') (headers self) payload 30 (self, evs) of
           (Inl e, st) \<Rightarrow> (Inl e, st)
         | (Inr response, st) \<Rightarrow>
             (case raise_for_status response of
                Inl e \<Rightarrow> (Inl e, st)
              | Inr response \<Rightarrow> (response_json l response, st))))"

text \<open>\<^verbatim>\<open>BedrockOpenAIClientSync.list_models(self)\<close>\<close>

definition list_models_sync :: "lib \<Rightarrow> json prog" where
  "list_models_sync l = (\<lambda>(self, evs).
     case get l (base_url self @ ''/v1/models'') (headers self) 10 (self, evs) of
       (Inl e, st) \<Rightarrow> (Inl e, st)
     | (Inr response, st) \<Rightarrow>
         (case raise_for_status response of
            Inl e \<Rightarrow> (Inl e, st)
          | Inr response \<Rightarrow> (response_json l response, st)))"

section \<open>The drivers\<close>

text \<open>
  Sequencing of steps that may raise: the first exception ends the sequence and is the
  result; \<open>catch\<close> is \<^verbatim>\<open>try: ... except Exception as e: ...\<close>.
\<close>

definition and_then :: "'a prog \<Rightarrow> ('a \<Rightarrow> 'b prog) \<Rightarrow> 'b prog" where
  "and_then m f = (\<lambda>st. case m st of (Inl e, st') \<Rightarrow> (Inl e, st') | (Inr x, st') \<Rightarrow> f x st')"

definition catch :: "'a prog \<Rightarrow> (error \<Rightarrow> 'a prog) \<Rightarrow> 'a prog" where
  "catch m h = (\<lambda>st. case m st of (Inl e, st') \<Rightarrow> h e st' | (Inr x, st') \<Rightarrow> (Inr x, st'))"

definition evaluate :: "error + 'a \<Rightarrow> 'a prog" where
  "evaluate r = (\<lambda>st. (r, st))"

definition print_line :: "string \<Rightarrow> event list \<Rightarrow> event list" where
  "print_line s evs = evs @ [Printed s]"

definition print :: "string \<Rightarrow> unit prog" where
  "print s = (\<lambda>(self, evs). (Inr (), self, print_line s evs))"

definition then_sum :: "error + 'a \<Rightarrow> ('a \<Rightarrow> error + 'b) \<Rightarrow> error + 'b" where
  "then_sum r f = (case r of Inl e \<Rightarrow> Inl e | Inr x \<Rightarrow> f x)"

text \<open>
  Python's subscription \<^verbatim>\<open>x[key]\<close> on a decoded JSON value, with a string key and with an
  integer index: a missing key raises KeyError, an index out of range IndexError, a value
  that cannot be subscripted that way TypeError. A negative index counts from the end;
  \<open>py_index\<close> gives the position an index denotes in a sequence of the given length.
\<close>

fun getitem_str :: "json \<Rightarrow> string \<Rightarrow> error + json" where
  "getitem_str (JObj kvs) k = (case map_of kvs k of None \<Rightarrow> Inl (KeyError (JStr k)) | Some v \<Rightarrow> Inr v)"
| "getitem_str _ k = Inl TypeError"

definition py_index :: "nat \<Rightarrow> int \<Rightarrow> nat option" where
  "py_index len i =
     (if 0 \<le> i \<and> i < int len then Some (nat i)
      else if i < 0 \<and> - int len \<le> i then Some (nat (int len + i))
      else None)"

fun getitem_int :: "json \<Rightarrow> int \<Rightarrow> error + json" where
  "getitem_int (JArr xs) i =
     (case py_index (length xs) i of None \<Rightarrow> Inl IndexError | Some k \<Rightarrow> Inr (xs ! k))"
| "getitem_int (JStr s) i =
     (case py_index (length s) i of None \<Rightarrow> Inl IndexError | Some k \<Rightarrow> Inr (JStr [s ! k]))"
| "getitem_int (JObj kvs) i = Inl (KeyError (JInt i))"
| "getitem_int _ i = Inl TypeError"

text \<open>\<^verbatim>\<open>response['choices'][0]['message']['content']\<close>\<close>

definition response_content :: "json \<Rightarrow> error + json" where
  "response_content response =
     then_sum (then_sum (then_sum (getitem_str response ''choices'')
       (\<lambda>x. getitem_int x 0)) (\<lambda>x. getitem_str x ''message'')) (\<lambda>x. getitem_str x ''content'')"

text \<open>\<^verbatim>\<open>os.getenv(name, default)\<close> on the process environment.\<close>

definition getenv :: "(string \<rightharpoonup> string) \<Rightarrow> string \<Rightarrow> string \<Rightarrow> string" where
  "getenv environ name dflt = (case environ name of None \<Rightarrow> dflt | Some v \<Rightarrow> v)"

text \<open>The placeholder both drivers use as the default of \<^verbatim>\<open>AWS_BEARER_TOKEN_BEDROCK\<close>.\<close>

definition default_token :: string where
  "default_token = ''bedrock-api-key-YmVkcm9jay5hbWF6b25hd3MuY29tLz9BY3Rpb249Q2FsbFdpdGhCZWFyZXJUb2tlbiZYLUFte......''"

text \<open>The non-ASCII characters of the printed lines, as UTF-8.\<close>

definition warning_sign :: string where
  "warning_sign = [CHR 0xE2, CHR 0x9A, CHR 0xA0, CHR 0xEF, CHR 0xB8, CHR 0x8F]"

definition rocket :: string where
  "rocket = [CHR 0xF0, CHR 0x9F, CHR 0x9A, CHR 0x80]"

definition clipboard :: string where
  "clipboard = [CHR 0xF0, CHR 0x9F, CHR 0x93, CHR 0x8B]"

definition speech_balloon :: string where
  "speech_balloon = [CHR 0xF0, CHR 0x9F, CHR 0x92, CHR 0xAC]"

definition performing_arts :: string where
  "performing_arts = [CHR 0xF0, CHR 0x9F, CHR 0x8E, CHR 0xAD]"

definition eye :: string where
  "eye = [CHR 0xF0, CHR 0x9F, CHR 0x91, CHR 0x81, CHR 0xEF, CHR 0xB8, CHR 0x8F]"

definition speaking_head :: string where
  "speaking_head = [CHR 0xF0, CHR 0x9F, CHR 0x97, CHR 0xA3, CHR 0xEF, CHR 0xB8, CHR 0x8F]"

definition cross_mark :: string where
  "cross_mark = [CHR 0xE2, CHR 0x9D, CHR 0x8C]"

text \<open>The three lines both drivers print when the token is the placeholder.\<close>

definition token_warning :: "string list" where
  "token_warning =
     [warning_sign @ ''  Please set your Bedrock API Token in the AWS_BEARER_TOKEN_BEDROCK environment variable'',
      ''   Format: bedrock-api-key-<base64-encoded-data>'',
      ''   export AWS_BEARER_TOKEN_BEDROCK=bedrock-api-key-YmVkcm9jay5hbWF6b25hd3MuY29tLz9BY3Rpb249Q2FsbFdpdGhCZWFyZXJUb2tlbiZYLUFte......'']"

text \<open>The two \<^verbatim>\<open>except\<close> clauses that close the \<^verbatim>\<open>try\<close> of both drivers.\<close>

definition main_except :: "lib \<Rightarrow> error \<Rightarrow> unit prog" where
  "main_except l e =
     (case e of
        HTTPStatusError r \<Rightarrow>
          and_then (print (cross_mark @ '' HTTP Error: '' @ str_int l (status_code r)))
            (\<lambda>_. print (''Response: '' @ text_of r))
      | _ \<Rightarrow> print (cross_mark @ '' Error: '' @ str_error l e))"

subsection \<open>The asynchronous driver\<close>

definition messages :: "json list" where
  "messages =
     [JObj [(''role'', JStr ''user''), (''content'', JStr ''Hello! Can you tell me about AWS Bedrock?'')]]"

definition messages_with_system :: "json list" where
  "messages_with_system =
     [JObj [(''role'', JStr ''system''), (''content'', JStr ''You are a helpful AWS expert assistant.'')],
      JObj [(''role'', JStr ''user''), (''content'', JStr ''What are the benefits of using AWS Bedrock?'')]]"

definition vision_messages :: "json list" where
  "vision_messages =
     [JObj [(''role'', JStr ''user''),
            (''content'', JArr
               [JObj [(''type'', JStr ''text''), (''text'', JStr ''What do you see in this image?'')],
                JObj [(''type'', JStr ''image_url''),
                      (''image_url'', JObj [(''url'', JStr ''data:image/jpeg;base64,/9j/4AAQSkZJRgABAQAAAQABAAD/2wBDAAYEBQYFBAYGBQYHBwYIChAKCgkJChQODwwQFxQYGBcUFhYaHSUfGhsjHBYWICwgIyYnKSopGR8tMC0oMCUoKSj/2wBDAQcHBwoIChMKChMoGhYaKCgoKCgoKCgoKCgoKCgoKCgoKCgoKCgoKCgoKCgoKCgoKCgoKCgoKCgoKCgoKCgoKCj/wAARCAABAAEDASIAAhEBAxEB/8QAFQABAQAAAAAAAAAAAAAAAAAAAAv/xAAUEAEAAAAAAAAAAAAAAAAAAAAA/8QAFQEBAQAAAAAAAAAAAAAAAAAAAAX/xAAUEQEAAAAAAAAAAAAAAAAAAAAA/9oADAMBAAIRAxEAPwCdABmX/9k='')])]])]]"

text \<open>The body of the \<^verbatim>\<open>try\<close> block of \<^verbatim>\<open>main\<close> in \<^verbatim>\<open>python_httpx_client.py\<close>.\<close>

definition main_try :: "lib \<Rightarrow> unit prog" where
  "main_try l =
     and_then (print (clipboard @ '' Listing available models...'')) (\<lambda>_.
     and_then (list_models l) (\<lambda>models.
     and_then (print (''Available models: '' @ dumps l models @ [CHR 0x0A])) (\<lambda>_.
     and_then (print (speech_balloon @ '' OpenAI-compatible chat completion...'')) (\<lambda>_.
     and_then (chat_completion l messages ''gpt-3.5-turbo'' 0.7 500 False) (\<lambda>response.
     and_then (evaluate (response_content response)) (\<lambda>content.
     and_then (print (''Response: '' @ str_json l content @ [CHR 0x0A])) (\<lambda>_.
     and_then (evaluate (getitem_str response ''usage'')) (\<lambda>usage.
     and_then (print (''Usage: '' @ str_json l usage @ [CHR 0x0A])) (\<lambda>_.
     and_then (print (performing_arts @ '' Chat with system message...'')) (\<lambda>_.
     and_then (chat_completion l messages_with_system ''gpt-4'' 0.5 300 False) (\<lambda>response.
     and_then (evaluate (response_content response)) (\<lambda>content.
     and_then (print (''Response: '' @ str_json l content @ [CHR 0x0A])) (\<lambda>_.
     and_then (print (eye @ ''  Vision model example...'')) (\<lambda>_.
     catch
       (and_then (chat_completion l vision_messages ''claude-3-sonnet'' 0.5 300 False) (\<lambda>vision_response.
        and_then (evaluate (response_content vision_response)) (\<lambda>content.
        print (''Vision Response: '' @ str_json l content @ [CHR 0x0A]))))
       (\<lambda>e. print (''Vision model not available or error: '' @ str_error l e @ [CHR 0x0A]))))))))))))))))"

text \<open>
  \<^verbatim>\<open>main()\<close> of \<^verbatim>\<open>python_httpx_client.py\<close>, on the process environment and the log so far:
  how it ends (it returns \<^verbatim>\<open>None\<close>, or raises) and the log as it leaves it.
\<close>

definition main :: "(string \<rightharpoonup> string) \<Rightarrow> lib \<Rightarrow> event list \<Rightarrow> (error + unit) \<times> event list" where
  "main environ l evs =
     (let BASE_URL = getenv environ ''BEDROCK_OPENAI_BASE_URL'' ''https://openai.ez2.click/'';
          AWS_BEARER_TOKEN = getenv environ ''AWS_BEARER_TOKEN_BEDROCK'' default_token
      in if AWS_BEARER_TOKEN = default_token then
           (Inr (), foldl (\<lambda>evs s. print_line s evs) evs token_warning)
         else
           let client = BedrockOpenAIClient_init BASE_URL AWS_BEARER_TOKEN
           in (case and_then (print (rocket @ '' Bedrock OpenAI Proxy Client Examples'' @ [CHR 0x0A]))
                      (\<lambda>_. catch (main_try l) (main_except l))
                      (client, evs @ [Constructed client]) of
                 (r, _, evs') \<Rightarrow> (r, evs')))"

subsection \<open>The synchronous driver\<close>

definition messages_sync :: "json list" where
  "messages_sync =
     [JObj [(''role'', JStr ''user''),
            (''content'', JStr ''What is AWS Bedrock? Please explain in 2 sentences.'')]]"

definition conversation :: "json list" where
  "conversation =
     [JObj [(''role'', JStr ''system''), (''content'', JStr ''You are a helpful AWS expert.'')],
      JObj [(''role'', JStr ''user''), (''content'', JStr ''What is AWS Bedrock?'')],
      JObj [(''role'', JStr ''assistant''),
            (''content'', JStr ''AWS Bedrock is a fully managed service that offers foundation models from leading AI companies through a single API.'')],
      JObj [(''role'', JStr ''user''), (''content'', JStr ''What are its main benefits?'')]]"

text \<open>The body of the \<^verbatim>\<open>try\<close> block of \<^verbatim>\<open>main\<close> in \<^verbatim>\<open>python_sync_client.py\<close>.\<close>

definition main_try_sync :: "lib \<Rightarrow> unit prog" where
  "main_try_sync l =
     and_then (print (clipboard @ '' Listing available models...'')) (\<lambda>_.
     and_then (list_models_sync l) (\<lambda>models.
     and_then (print (''Available models: '' @ dumps l models @ [CHR 0x0A])) (\<lambda>_.
     and_then (print (speech_balloon @ '' Simple chat completion...'')) (\<lambda>_.
     and_then (chat_completion_sync l messages_sync ''gpt-3.5-turbo'' 0.7 200) (\<lambda>response.
     and_then (evaluate (response_content response)) (\<lambda>content.
     and_then (print (''Response: '' @ str_json l content @ [CHR 0x0A])) (\<lambda>_.
     and_then (evaluate (getitem_str response ''usage'')) (\<lambda>usage.
     and_then (print (''Usage: '' @ str_json l usage @ [CHR 0x0A])) (\<lambda>_.
     and_then (print (speaking_head @ ''  Multi-turn conversation...'')) (\<lambda>_.
     and_then (chat_completion_sync l conversation ''gpt-4'' 0.5 300) (\<lambda>response.
     and_then (evaluate (response_content response)) (\<lambda>content.
     print (''Response: '' @ str_json l content @ [CHR 0x0A])))))))))))))"

text \<open>\<^verbatim>\<open>main()\<close> of \<^verbatim>\<open>python_sync_client.py\<close>.\<close>

definition main_sync :: "(string \<rightharpoonup> string) \<Rightarrow> lib \<Rightarrow> event list \<Rightarrow> (error + unit) \<times> event list" where
  "main_sync environ l evs =
     (let BASE_URL = getenv environ ''BEDROCK_OPENAI_BASE_URL'' ''https://openai.ez2.click/dev'';
          AWS_BEARER_TOKEN = getenv environ ''AWS_BEARER_TOKEN_BEDROCK'' default_token
      in if AWS_BEARER_TOKEN = default_token then
           (Inr (), foldl (\<lambda>evs s. print_line s evs) evs token_warning)
         else
           let client = BedrockOpenAIClientSync_init BASE_URL AWS_BEARER_TOKEN
           in (case and_then (print (rocket @ '' Bedrock OpenAI Proxy Synchronous Client Example'' @ [CHR 0x0A]))
                      (\<lambda>_. catch (main_try_sync l) (main_except l))
                      (client, evs @ [Constructed client]) of
                 (r, _, evs') \<Rightarrow> (r, evs')))"

section \<open>Callers and test fixtures\<close>

text \<open>
  A caller that invokes the methods of one client object one after the other, catching
  whatever a call raises and going on: the results in order, and the object and the log
  after the last call.
\<close>

datatype call = ChatCompletion "json list" string real int bool | ListModels

datatype call_sync = ChatCompletionSync "json list" string real int | ListModelsSync

fun run_call :: "lib \<Rightarrow> call \<Rightarrow> json prog" where
  "run_call l (ChatCompletion ms m t k s) = chat_completion l ms m t k s"
| "run_call l ListModels = list_models l"

fun run_call_sync :: "lib \<Rightarrow> call_sync \<Rightarrow> json prog" where
  "run_call_sync l (ChatCompletionSync ms m t k) = chat_completion_sync l ms m t k"
| "run_call_sync l ListModelsSync = list_models_sync l"

fun run_calls :: "lib \<Rightarrow> call list \<Rightarrow> client \<times> event list \<Rightarrow> (error + json) list \<times> client \<times> event list" where
  "run_calls l [] st = ([], st)"
| "run_calls l (c # cs) st =
     (case run_call l c st of (r, st') \<Rightarrow>
        (case run_calls l cs st' of (rs, st'') \<Rightarrow> (r # rs, st'')))"

fun run_calls_sync :: "lib \<Rightarrow> call_sync list \<Rightarrow> client \<times> event list \<Rightarrow> (error + json) list \<times> client \<times> event list" where
  "run_calls_sync l [] st = ([], st)"
| "run_calls_sync l (c # cs) st =
     (case run_call_sync l c st of (r, st') \<Rightarrow>
        (case run_calls_sync l cs st' of (rs, st'') \<Rightarrow> (r # rs, st'')))"

text \<open>
  A mocked environment: the transport gives every request the same outcome, the decoder
  accepts the one body \<^verbatim>\<open>{}\<close>, and the renderings print nothing.
\<close>

definition mock :: "outcome \<Rightarrow> lib" where
  "mock out =
     \<lparr>send = (\<lambda>_ _. out),
      loads = (\<lambda>s. if s = ''{}'' then Some (JObj []) else None),
      dumps = (\<lambda>_. []),
      str_json = (\<lambda>_. []),
      str_int = (\<lambda>_. []),
      str_error = (\<lambda>_. [])\<rparr>"

text \<open>The request field that carries the credential.\<close>

definition authorization :: "request \<Rightarrow> string option" where
  "authorization q = map_of (req_headers q) ''Authorization''"

text \<open>The names of the fields of a request's JSON body, in order; none without a JSON object.\<close>

definition body_fields :: "request \<Rightarrow> string list" where
  "body_fields q = (case json_body q of Some (JObj p) \<Rightarrow> map fst p | _ \<Rightarrow> [])"

text \<open>
  A mocked service that looks at the request: it answers 200 with the body \<^verbatim>\<open>{}\<close> to a request
  that carries the given bearer token, and 401 to every other request.
\<close>

definition guarded :: "string \<Rightarrow> lib" where
  "guarded tok =
     \<lparr>send = (\<lambda>_ q. if authorization q = Some (''Bearer '' @ tok)
                      then Responded \<lparr>status_code = 200, text_of = ''{}''\<rparr>
                      else Responded \<lparr>status_code = 401, text_of = ''Unauthorized''\<rparr>),
      loads = (\<lambda>s. if s = ''{}'' then Some (JObj []) else None),
      dumps = (\<lambda>_. []),
      str_json = (\<lambda>_. []),
      str_int = (\<lambda>_. []),
      str_error = (\<lambda>_. [])\<rparr>"

section \<open>The response contract\<close>

text \<open>
  The spec's description of what a call returns, as a function of what the transport did:
  a network or timeout failure is a TransportError, a non-2xx status an HttpStatusError
  with the response, a 2xx status the decoded body, or a DecodeError when it does not
  decode. The methods are compared with it below.
\<close>

definition spec_result :: "lib \<Rightarrow> outcome \<Rightarrow> error + json" where
  "spec_result l out =
     (case out of
        Failed f \<Rightarrow> Inl (TransportError f)
      | Responded r \<Rightarrow>
          if 200 \<le> status_code r \<and> status_code r \<le> 299
          then (case loads l (text_of r) of None \<Rightarrow> Inl (DecodeError (text_of r)) | Some j \<Rightarrow> Inr j)
          else Inl (HTTPStatusError r))"

section \<open>Base-URL normalisation\<close>

lemma rstrip_decompose:
  "s = rstrip chars s @ rev (takeWhile (\<lambda>c. c \<in> set chars) (rev s))"
proof -
  have "rev (takeWhile (\<lambda>c. c \<in> set chars) (rev s) @ dropWhile (\<lambda>c. c \<in> set chars) (rev s)) = s"
    by (simp only: takeWhile_dropWhile_id rev_rev_ident)
  then show ?thesis
    by (simp only: rstrip_def rev_append)
qed

lemma takeWhile_single:
  "takeWhile (\<lambda>c. c \<in> set [a]) xs = replicate (length (takeWhile (\<lambda>c. c \<in> set [a]) xs)) a"
  by (induction xs) auto

lemma rstrip_slash_replicate:
  "\<exists>n. s = rstrip ''/'' s @ replicate n CHR ''/''"
proof -
  let ?t = "takeWhile (\<lambda>c. c \<in> set ''/'') (rev s)"
  have "?t = replicate (length ?t) CHR ''/''"
    by (rule takeWhile_single)
  then have "rev ?t = replicate (length ?t) CHR ''/''"
    by (metis rev_replicate)
  with rstrip_decompose [of s "''/''"] have "s = rstrip ''/'' s @ replicate (length ?t) CHR ''/''"
    by simp
  then show ?thesis ..
qed

lemma rstrip_no_trailing:
  "rstrip chars s \<noteq> xs @ [c] \<or> c \<notin> set chars"
proof (cases "rstrip chars s = xs @ [c]")
  case False
  then show ?thesis by simp
next
  case True
  then have "dropWhile (\<lambda>c. c \<in> set chars) (rev s) = c # rev xs"
    by (simp add: rstrip_def rev_swap)
  then have "c \<notin> set chars"
    by (metis (mono_tags, lifting) hd_dropWhile list.distinct(1) list.sel(1))
  then show ?thesis by simp
qed

lemma rstrip_not_slash_end: "\<not> (\<exists>s. rstrip ''/'' b = s @ ''/'')"
  using rstrip_no_trailing [of "''/''" b _ "CHR ''/''"] by auto

lemma rstrip_all_slashes: "rstrip ''/'' (replicate n CHR ''/'') = []"
  by (simp add: rstrip_def dropWhile_eq_Nil_conv)

section \<open>What one call does\<close>

text \<open>
  Each verb leaves the object as it found it and adds one request to the log; its
  result is the spec's function of the transport's outcome for that request.
\<close>

lemma chat_completion_state:
  "snd (chat_completion l ms m t k s (self, evs)) =
     (self, evs @ [Issued \<lparr>verb = POST, url = base_url self @ ''/v1/chat/completions'',
        req_headers = headers self,
        json_body = Some (JObj [(''model'', JStr m), (''messages'', JArr ms),
          (''temperature'', JFloat t), (''max_tokens'', JInt k), (''stream'', JBool s)]),
        timeout = 30\<rparr>])"
  by (simp add: chat_completion_def post_def Let_def split: outcome.split sum.split)

lemma chat_completion_sync_state:
  "snd (chat_completion_sync l ms m t k (self, evs)) =
     (self, evs @ [Issued \<lparr>verb = POST, url = base_url self @ ''/v1/chat/completions'',
        req_headers = headers self,
        json_body = Some (JObj [(''model'', JStr m), (''messages'', JArr ms),
          (''temperature'', JFloat t), (''max_tokens'', JInt k)]),
        timeout = 30\<rparr>])"
  by (simp add: chat_completion_sync_def post_def Let_def split: outcome.split sum.split)

lemma list_models_state:
  "snd (list_models l (self, evs)) =
     (self, evs @ [Issued \<lparr>verb = GET, url = base_url self @ ''/v1/models'',
        req_headers = headers self, json_body = None, timeout = 10\<rparr>])"
  by (simp add: list_models_def get_def Let_def split: outcome.split sum.split)

lemma list_models_sync_state:
  "snd (list_models_sync l (self, evs)) =
     (self, evs @ [Issued \<lparr>verb = GET, url = base_url self @ ''/v1/models'',
        req_headers = headers self, json_body = None, timeout = 10\<rparr>])"
  by (simp add: list_models_sync_def get_def Let_def split: outcome.split sum.split)

lemma chat_completion_result:
  "fst (chat_completion l ms m t k s (self, evs)) =
     spec_result l (send l (issued evs)
       \<lparr>verb = POST, url = base_url self @ ''/v1/chat/completions'',
        req_headers = headers self,
        json_body = Some (JObj [(''model'', JStr m), (''messages'', JArr ms),
          (''temperature'', JFloat t), (''max_tokens'', JInt k), (''stream'', JBool s)]),
        timeout = 30\<rparr>)"
  by (simp add: chat_completion_def post_def Let_def spec_result_def raise_for_status_def
      response_json_def split: outcome.split sum.split)

lemma chat_completion_sync_result:
  "fst (chat_completion_sync l ms m t k (self, evs)) =
     spec_result l (send l (issued evs)
       \<lparr>verb = POST, url = base_url self @ ''/v1/chat/completions'',
        req_headers = headers self,
        json_body = Some (JObj [(''model'', JStr m), (''messages'', JArr ms),
          (''temperature'', JFloat t), (''max_tokens'', JInt k)]),
        timeout = 30\<rparr>)"
  by (simp add: chat_completion_sync_def post_def Let_def spec_result_def raise_for_status_def
      response_json_def split: outcome.split sum.split)

lemma list_models_result:
  "fst (list_models l (self, evs)) =
     spec_result l (send l (issued evs)
       \<lparr>verb = GET, url = base_url self @ ''/v1/models'',
        req_headers = headers self, json_body = None, timeout = 10\<rparr>)"
  by (simp add: list_models_def get_def Let_def spec_result_def raise_for_status_def
      response_json_def split: outcome.split sum.split)

lemma list_models_sync_result:
  "fst (list_models_sync l (self, evs)) =
     spec_result l (send l (issued evs)
       \<lparr>verb = GET, url = base_url self @ ''/v1/models'',
        req_headers = headers self, json_body = None, timeout = 10\<rparr>)"
  by (simp add: list_models_sync_def get_def Let_def spec_result_def raise_for_status_def
      response_json_def split: outcome.split sum.split)

section \<open>Sequences of calls and the driver with a token\<close>

lemma run_call_client: "fst (snd (run_call l c (self, evs))) = self"
  by (cases c) (simp_all add: chat_completion_state list_models_state)

lemma run_call_sync_client: "fst (snd (run_call_sync l c (self, evs))) = self"
  by (cases c) (simp_all add: chat_completion_sync_state list_models_sync_state)

lemma run_calls_client: "fst (snd (run_calls l cs (self, evs))) = self"
proof (induction cs arbitrary: evs)
  case Nil
  show ?case by simp
next
  case (Cons c cs)
  obtain r self' evs' where step: "run_call l c (self, evs) = (r, self', evs')"
    by (cases "run_call l c (self, evs)") auto
  with run_call_client [of l c self evs] have "self' = self"
    by simp
  with step Cons.IH [of evs'] show ?case
    by (auto split: prod.split)
qed

lemma run_calls_sync_client: "fst (snd (run_calls_sync l cs (self, evs))) = self"
proof (induction cs arbitrary: evs)
  case Nil
  show ?case by simp
next
  case (Cons c cs)
  obtain r self' evs' where step: "run_call_sync l c (self, evs) = (r, self', evs')"
    by (cases "run_call_sync l c (self, evs)") auto
  with run_call_sync_client [of l c self evs] have "self' = self"
    by simp
  with step Cons.IH [of evs'] show ?case
    by (auto split: prod.split)
qed

text \<open>
  With a token of its own and an unreachable service, the asynchronous driver constructs
  its client, issues the request of \<^verbatim>\<open>list_models\<close> and reports the error: the events the
  placeholder branch leaves out.
\<close>

lemma main_with_a_token:
  "main [''AWS_BEARER_TOKEN_BEDROCK'' \<mapsto> ''bedrock-api-key-abc'']
        (mock (Failed (NetworkError ''unreachable''))) []
     = (Inr (),
        [Constructed (BedrockOpenAIClient_init ''https://openai.ez2.click/'' ''bedrock-api-key-abc''),
         Printed (rocket @ '' Bedrock OpenAI Proxy Client Examples'' @ [CHR 0x0A]),
         Printed (clipboard @ '' Listing available models...''),
         Issued \<lparr>verb = GET, url = ''https://openai.ez2.click/v1/models'',
           req_headers = [(''Content-Type'', ''application/json''),
                          (''Authorization'', ''Bearer bedrock-api-key-abc'')],
           json_body = None, timeout = 10\<rparr>,
         Printed (cross_mark @ '' Error: '')])"
proof -
  have tok: "''bedrock-api-key-abc'' \<noteq> default_token"
    by (simp add: default_token_def)
  have url: "rstrip ''/'' ''https://openai.ez2.click/'' = ''https://openai.ez2.click''"
    by (simp add: rstrip_def)
  show ?thesis
    using tok
    by (simp add: main_def main_try_def main_except_def getenv_def Let_def and_then_def catch_def
        print_def print_line_def list_models_def get_def mock_def BedrockOpenAIClient_init_def url)
qed

section \<open>The claims\<close>

text \<open>
  C3: for every \<^verbatim>\<open>base_url\<close> string passed to either constructor, the stored base URL has no
  trailing slash; for \<^verbatim>\<open>"https://example.com/"\<close> the stored value is
  \<^verbatim>\<open>"https://example.com"\<close>, and the one request of \<^verbatim>\<open>list_models\<close> on that client goes to
  \<^verbatim>\<open>"https://example.com/v1/models"\<close>, with no doubled slash where the path is joined on.
\<close>

theorem stored_base_url_has_no_trailing_slash:
  "\<not> (\<exists>s. base_url (BedrockOpenAIClient_init b tok) = s @ ''/'')
   \<and> \<not> (\<exists>s. base_url (BedrockOpenAIClientSync_init b tok) = s @ ''/'')
   \<and> base_url (BedrockOpenAIClient_init ''https://example.com/'' tok) = ''https://example.com''
   \<and> base_url (BedrockOpenAIClientSync_init ''https://example.com/'' tok) = ''https://example.com''
   \<and> map url (issued (snd (snd (list_models l
          (BedrockOpenAIClient_init ''https://example.com/'' tok, [])))))
        = [''https://example.com/v1/models'']
   \<and> map url (issued (snd (snd (list_models_sync l
          (BedrockOpenAIClientSync_init ''https://example.com/'' tok, [])))))
        = [''https://example.com/v1/models'']"
proof -
  have ex: "rstrip ''/'' ''https://example.com/'' = ''https://example.com''"
    by (simp add: rstrip_def)
  show ?thesis
    using rstrip_not_slash_end [of b]
    by (simp add: BedrockOpenAIClient_init_def BedrockOpenAIClientSync_init_def ex
        list_models_state list_models_sync_state)
qed

text \<open>
  C10: normalisation strips every trailing slash, not just one. For every \<^verbatim>\<open>base_url\<close> the
  stored base URL is \<^verbatim>\<open>base_url\<close> with all its trailing \<^verbatim>\<open>'/'\<close> removed: the argument is the
  stored value followed by slashes only, and the stored value does not end in a slash.
  So \<^verbatim>\<open>"https://example.com//"\<close> is stored as \<^verbatim>\<open>"https://example.com"\<close>, a \<^verbatim>\<open>base_url\<close> of
  slashes only is stored as the empty string, and \<^verbatim>\<open>list_models\<close> then requests
  \<^verbatim>\<open>"/v1/models"\<close>.
\<close>

theorem normalisation_strips_all_trailing_slashes:
  "(\<exists>n. b = base_url (BedrockOpenAIClient_init b tok) @ replicate n CHR ''/'')
   \<and> \<not> (\<exists>s. base_url (BedrockOpenAIClient_init b tok) = s @ ''/'')
   \<and> base_url (BedrockOpenAIClientSync_init b tok) = base_url (BedrockOpenAIClient_init b tok)
   \<and> base_url (BedrockOpenAIClient_init ''https://example.com//'' tok) = ''https://example.com''
   \<and> base_url (BedrockOpenAIClient_init (replicate k CHR ''/'') tok) = []
   \<and> map url (issued (snd (snd (list_models l
          (BedrockOpenAIClient_init (replicate k CHR ''/'') tok, [])))))
        = [''/v1/models'']
   \<and> map url (issued (snd (snd (list_models_sync l
          (BedrockOpenAIClientSync_init (replicate k CHR ''/'') tok, [])))))
        = [''/v1/models'']"
proof -
  have ex: "rstrip ''/'' ''https://example.com//'' = ''https://example.com''"
    by (simp add: rstrip_def)
  show ?thesis
    using rstrip_not_slash_end [of b] rstrip_slash_replicate [of b]
    by (simp add: BedrockOpenAIClient_init_def BedrockOpenAIClientSync_init_def ex
        rstrip_all_slashes list_models_state list_models_sync_state)
qed

text \<open>
  Against C1 as stated: the synchronous client, called with the one-message list of its
  driver, posts a body with four fields; \<^verbatim>\<open>"stream"\<close> is not among them.
\<close>

theorem sync_payload_lacks_stream:
  "messages_sync \<noteq> []
   \<and> map body_fields (issued (snd (snd (chat_completion_sync
        (mock (Responded \<lparr>status_code = 200, text_of = ''{}''\<rparr>))
        messages_sync ''gpt-3.5-turbo'' 0.7 200
        (BedrockOpenAIClientSync_init ''https://example.com/'' ''bedrock-api-key-abc'', [])))))
      = [[''model'', ''messages'', ''temperature'', ''max_tokens'']]
   \<and> ''stream'' \<notin> set [''model'', ''messages'', ''temperature'', ''max_tokens'']"
  by (simp add: chat_completion_sync_state body_fields_def messages_sync_def)

text \<open>
  C1, amended: for every non-empty messages sequence and every choice of the other
  arguments, \<^verbatim>\<open>chat_completion\<close> adds exactly one request to the log, a POST. In the
  asynchronous client its JSON body has the five fields \<^verbatim>\<open>model\<close>, \<^verbatim>\<open>messages\<close>,
  \<^verbatim>\<open>temperature\<close>, \<^verbatim>\<open>max_tokens\<close>, \<^verbatim>\<open>stream\<close>; in the synchronous client, whose method has no
  \<^verbatim>\<open>stream\<close> parameter, it has the first four only. (Neither method looks at the messages.)
\<close>

theorem chat_completion_issues_one_post:
  assumes "ms \<noteq> []"
  shows "(\<exists>q. snd (snd (chat_completion l ms m t k s (self, evs))) = evs @ [Issued q]
            \<and> verb q = POST
            \<and> body_fields q = [''model'', ''messages'', ''temperature'', ''max_tokens'', ''stream''])
       \<and> (\<exists>q. snd (snd (chat_completion_sync l ms m t k (self', evs))) = evs @ [Issued q]
            \<and> verb q = POST
            \<and> body_fields q = [''model'', ''messages'', ''temperature'', ''max_tokens''])"
  by (simp add: chat_completion_state chat_completion_sync_state body_fields_def)

text \<open>The same at the first call of the asynchronous driver, on both clients.\<close>

theorem chat_completion_issues_one_post_witness:
  "messages \<noteq> []
   \<and> (\<exists>q. snd (snd (chat_completion (mock (Responded \<lparr>status_code = 200, text_of = ''{}''\<rparr>))
              messages ''gpt-3.5-turbo'' 0.7 500 False
              (BedrockOpenAIClient_init ''https://example.com/'' ''bedrock-api-key-abc'', [])))
            = [] @ [Issued q]
          \<and> verb q = POST
          \<and> body_fields q = [''model'', ''messages'', ''temperature'', ''max_tokens'', ''stream''])
   \<and> (\<exists>q. snd (snd (chat_completion_sync (mock (Responded \<lparr>status_code = 200, text_of = ''{}''\<rparr>))
              messages ''gpt-3.5-turbo'' 0.7 500
              (BedrockOpenAIClientSync_init ''https://example.com/'' ''bedrock-api-key-abc'', [])))
            = [] @ [Issued q]
          \<and> verb q = POST
          \<and> body_fields q = [''model'', ''messages'', ''temperature'', ''max_tokens''])"
proof -
  have ne: "messages \<noteq> []"
    by (simp add: messages_def)
  from chat_completion_issues_one_post [OF ne] ne show ?thesis
    by blast
qed

text \<open>
  Against C2 as stated: on the same arguments, with \<^verbatim>\<open>stream\<close> left at its default, the two
  clients do not post the same JSON payload.
\<close>

theorem sync_and_async_payloads_differ:
  "map json_body (issued (snd (snd (chat_completion
        (mock (Responded \<lparr>status_code = 200, text_of = ''{}''\<rparr>))
        messages ''gpt-4'' 0.5 300 False
        (BedrockOpenAIClient_init ''https://example.com/'' ''bedrock-api-key-abc'', [])))))
   \<noteq> map json_body (issued (snd (snd (chat_completion_sync
        (mock (Responded \<lparr>status_code = 200, text_of = ''{}''\<rparr>))
        messages ''gpt-4'' 0.5 300
        (BedrockOpenAIClientSync_init ''https://example.com/'' ''bedrock-api-key-abc'', [])))))"
  by (simp add: chat_completion_state chat_completion_sync_state)

text \<open>
  C2, amended: for every input, the two clients' \<^verbatim>\<open>chat_completion\<close> issue one request each,
  with the same verb, the same URL, the same headers and the same timeout; the asynchronous
  payload is the synchronous payload followed by the \<^verbatim>\<open>stream\<close> entry; and both turn what the
  transport does with their request into a result by the same function, the spec's.
\<close>

theorem sync_and_async_differ_only_in_stream:
  "\<exists>qa qs p.
      snd (snd (chat_completion l ms m t k s (BedrockOpenAIClient_init b tok, evs))) = evs @ [Issued qa]
    \<and> snd (snd (chat_completion_sync l ms m t k (BedrockOpenAIClientSync_init b tok, evs))) = evs @ [Issued qs]
    \<and> verb qa = verb qs \<and> url qa = url qs \<and> req_headers qa = req_headers qs
    \<and> timeout qa = timeout qs
    \<and> json_body qs = Some (JObj p)
    \<and> json_body qa = Some (JObj (p @ [(''stream'', JBool s)]))
    \<and> fst (chat_completion l ms m t k s (BedrockOpenAIClient_init b tok, evs))
        = spec_result l (send l (issued evs) qa)
    \<and> fst (chat_completion_sync l ms m t k (BedrockOpenAIClientSync_init b tok, evs))
        = spec_result l (send l (issued evs) qs)"
  by (simp add: chat_completion_state chat_completion_sync_state chat_completion_result
      chat_completion_sync_result BedrockOpenAIClient_init_def BedrockOpenAIClientSync_init_def)

text \<open>
  C4: when the transport answers the request \<^verbatim>\<open>chat_completion\<close> sends with a response whose
  status is not 2xx (401, say), \<^verbatim>\<open>chat_completion\<close> raises an HttpStatusError that carries that
  response, status code and raw body, and returns no value; when the transport fails on that
  request (network, timeout), it raises a TransportError. Both clients, each on the request
  it builds; what the transport would do with any other request plays no part.
\<close>

theorem failures_are_raised:
  "(send l (issued evs)
        \<lparr>verb = POST, url = base_url self @ ''/v1/chat/completions'', req_headers = headers self,
         json_body = Some (JObj [(''model'', JStr m), (''messages'', JArr ms),
           (''temperature'', JFloat t), (''max_tokens'', JInt k), (''stream'', JBool s)]),
         timeout = 30\<rparr> = Responded r
      \<and> \<not> (200 \<le> status_code r \<and> status_code r \<le> 299)
      \<longrightarrow> fst (chat_completion l ms m t k s (self, evs)) = Inl (HTTPStatusError r))
   \<and> (send l (issued evs)
        \<lparr>verb = POST, url = base_url self @ ''/v1/chat/completions'', req_headers = headers self,
         json_body = Some (JObj [(''model'', JStr m), (''messages'', JArr ms),
           (''temperature'', JFloat t), (''max_tokens'', JInt k), (''stream'', JBool s)]),
         timeout = 30\<rparr> = Failed f
      \<longrightarrow> fst (chat_completion l ms m t k s (self, evs)) = Inl (TransportError f))
   \<and> (send l (issued evs)
        \<lparr>verb = POST, url = base_url self' @ ''/v1/chat/completions'', req_headers = headers self',
         json_body = Some (JObj [(''model'', JStr m), (''messages'', JArr ms),
           (''temperature'', JFloat t), (''max_tokens'', JInt k)]),
         timeout = 30\<rparr> = Responded r
      \<and> \<not> (200 \<le> status_code r \<and> status_code r \<le> 299)
      \<longrightarrow> fst (chat_completion_sync l ms m t k (self', evs)) = Inl (HTTPStatusError r))
   \<and> (send l (issued evs)
        \<lparr>verb = POST, url = base_url self' @ ''/v1/chat/completions'', req_headers = headers self',
         json_body = Some (JObj [(''model'', JStr m), (''messages'', JArr ms),
           (''temperature'', JFloat t), (''max_tokens'', JInt k)]),
         timeout = 30\<rparr> = Failed f
      \<longrightarrow> fst (chat_completion_sync l ms m t k (self', evs)) = Inl (TransportError f))"
  by (simp add: chat_completion_result chat_completion_sync_result spec_result_def)

text \<open>
  A service that answers 401 to a request without the right token (and would answer 200 to
  one with it), and a transport that times out.
\<close>

theorem failures_are_raised_witness:
  "fst (chat_completion (guarded ''bedrock-api-key-good'')
          messages ''gpt-3.5-turbo'' 0.7 500 False
          (BedrockOpenAIClient_init ''https://example.com/'' ''bedrock-api-key-abc'', []))
     = Inl (HTTPStatusError \<lparr>status_code = 401, text_of = ''Unauthorized''\<rparr>)
   \<and> fst (chat_completion_sync (guarded ''bedrock-api-key-good'')
          messages ''gpt-3.5-turbo'' 0.7 500
          (BedrockOpenAIClientSync_init ''https://example.com/'' ''bedrock-api-key-abc'', []))
     = Inl (HTTPStatusError \<lparr>status_code = 401, text_of = ''Unauthorized''\<rparr>)
   \<and> fst (chat_completion (mock (Failed (TimeoutException ''timed out'')))
          messages ''gpt-3.5-turbo'' 0.7 500 False
          (BedrockOpenAIClient_init ''https://example.com/'' ''bedrock-api-key-abc'', []))
     = Inl (TransportError (TimeoutException ''timed out''))
   \<and> fst (chat_completion_sync (mock (Failed (TimeoutException ''timed out'')))
          messages ''gpt-3.5-turbo'' 0.7 500
          (BedrockOpenAIClientSync_init ''https://example.com/'' ''bedrock-api-key-abc'', []))
     = Inl (TransportError (TimeoutException ''timed out''))"
  using failures_are_raised
          [where l = "guarded ''bedrock-api-key-good''"
          and evs = "[]" and r = "\<lparr>status_code = 401, text_of = ''Unauthorized''\<rparr>"
          and ms = messages and m = "''gpt-3.5-turbo''" and t = "0.7" and k = 500 and s = False
          and self = "BedrockOpenAIClient_init ''https://example.com/'' ''bedrock-api-key-abc''"
          and self' = "BedrockOpenAIClientSync_init ''https://example.com/'' ''bedrock-api-key-abc''"]
        failures_are_raised
          [where l = "mock (Failed (TimeoutException ''timed out''))"
          and evs = "[]" and f = "TimeoutException ''timed out''"
          and ms = messages and m = "''gpt-3.5-turbo''" and t = "0.7" and k = 500 and s = False
          and self = "BedrockOpenAIClient_init ''https://example.com/'' ''bedrock-api-key-abc''"
          and self' = "BedrockOpenAIClientSync_init ''https://example.com/'' ''bedrock-api-key-abc''"]
  by (simp add: mock_def guarded_def authorization_def BedrockOpenAIClient_init_def
      BedrockOpenAIClientSync_init_def)

text \<open>
  C5: when the transport answers the request \<^verbatim>\<open>chat_completion\<close> sends with a 2xx response,
  \<^verbatim>\<open>chat_completion\<close> returns the body decoded as JSON; when the body does not decode it raises
  a DecodeError and returns no value. Both clients, each on the request it builds; what the
  transport would do with any other request plays no part.
\<close>

theorem success_returns_decoded_body:
  "(send l (issued evs)
        \<lparr>verb = POST, url = base_url self @ ''/v1/chat/completions'', req_headers = headers self,
         json_body = Some (JObj [(''model'', JStr m), (''messages'', JArr ms),
           (''temperature'', JFloat t), (''max_tokens'', JInt k), (''stream'', JBool s)]),
         timeout = 30\<rparr> = Responded r
      \<and> 200 \<le> status_code r \<and> status_code r \<le> 299
      \<longrightarrow> fst (chat_completion l ms m t k s (self, evs))
           = (case loads l (text_of r) of None \<Rightarrow> Inl (DecodeError (text_of r)) | Some j \<Rightarrow> Inr j))
   \<and> (send l (issued evs)
        \<lparr>verb = POST, url = base_url self' @ ''/v1/chat/completions'', req_headers = headers self',
         json_body = Some (JObj [(''model'', JStr m), (''messages'', JArr ms),
           (''temperature'', JFloat t), (''max_tokens'', JInt k)]),
         timeout = 30\<rparr> = Responded r
      \<and> 200 \<le> status_code r \<and> status_code r \<le> 299
      \<longrightarrow> fst (chat_completion_sync l ms m t k (self', evs))
           = (case loads l (text_of r) of None \<Rightarrow> Inl (DecodeError (text_of r)) | Some j \<Rightarrow> Inr j))"
  by (simp add: chat_completion_result chat_completion_sync_result spec_result_def)

text \<open>
  A mocked transport that answers 200 with a malformed body, and the service that answers
  200 with the body \<^verbatim>\<open>{}\<close> to a request with the right token (and 401 to any other).
\<close>

theorem success_returns_decoded_body_witness:
  "fst (chat_completion (mock (Responded \<lparr>status_code = 200, text_of = ''{not json''\<rparr>))
          messages ''gpt-3.5-turbo'' 0.7 500 False
          (BedrockOpenAIClient_init ''https://example.com/'' ''bedrock-api-key-abc'', []))
     = Inl (DecodeError ''{not json'')
   \<and> fst (chat_completion_sync (mock (Responded \<lparr>status_code = 200, text_of = ''{not json''\<rparr>))
          messages ''gpt-3.5-turbo'' 0.7 500
          (BedrockOpenAIClientSync_init ''https://example.com/'' ''bedrock-api-key-abc'', []))
     = Inl (DecodeError ''{not json'')
   \<and> fst (chat_completion (guarded ''bedrock-api-key-abc'')
          messages ''gpt-3.5-turbo'' 0.7 500 False
          (BedrockOpenAIClient_init ''https://example.com/'' ''bedrock-api-key-abc'', []))
     = Inr (JObj [])
   \<and> fst (chat_completion_sync (guarded ''bedrock-api-key-abc'')
          messages ''gpt-3.5-turbo'' 0.7 500
          (BedrockOpenAIClientSync_init ''https://example.com/'' ''bedrock-api-key-abc'', []))
     = Inr (JObj [])"
  using success_returns_decoded_body
          [where l = "mock (Responded \<lparr>status_code = 200, text_of = ''{not json''\<rparr>)"
          and evs = "[]" and r = "\<lparr>status_code = 200, text_of = ''{not json''\<rparr>"
          and ms = messages and m = "''gpt-3.5-turbo''" and t = "0.7" and k = 500 and s = False
          and self = "BedrockOpenAIClient_init ''https://example.com/'' ''bedrock-api-key-abc''"
          and self' = "BedrockOpenAIClientSync_init ''https://example.com/'' ''bedrock-api-key-abc''"]
        success_returns_decoded_body
          [where l = "guarded ''bedrock-api-key-abc''"
          and evs = "[]" and r = "\<lparr>status_code = 200, text_of = ''{}''\<rparr>"
          and ms = messages and m = "''gpt-3.5-turbo''" and t = "0.7" and k = 500 and s = False
          and self = "BedrockOpenAIClient_init ''https://example.com/'' ''bedrock-api-key-abc''"
          and self' = "BedrockOpenAIClientSync_init ''https://example.com/'' ''bedrock-api-key-abc''"]
  by (simp add: mock_def guarded_def authorization_def BedrockOpenAIClient_init_def
      BedrockOpenAIClientSync_init_def)

text \<open>
  C6: every call of \<^verbatim>\<open>list_models\<close> adds exactly one request to the log, a GET to
  \<^verbatim>\<open>{base_url}/v1/models\<close> with no body, and its Authorization header is the one
  \<^verbatim>\<open>chat_completion\<close> sends on the same client object; for a client built by the constructor
  it is \<^verbatim>\<open>Bearer <token>\<close>. Both clients.
\<close>

theorem list_models_issues_one_get:
  "(\<exists>q q'. snd (snd (list_models l (self, evs))) = evs @ [Issued q]
        \<and> verb q = GET \<and> url q = base_url self @ ''/v1/models'' \<and> json_body q = None
        \<and> snd (snd (chat_completion l ms m t k s (self, evs'))) = evs' @ [Issued q']
        \<and> authorization q = authorization q')
   \<and> (\<exists>q q'. snd (snd (list_models_sync l (self', evs))) = evs @ [Issued q]
        \<and> verb q = GET \<and> url q = base_url self' @ ''/v1/models'' \<and> json_body q = None
        \<and> snd (snd (chat_completion_sync l ms m t k (self', evs'))) = evs' @ [Issued q']
        \<and> authorization q = authorization q')
   \<and> map authorization (issued (snd (snd (list_models l (BedrockOpenAIClient_init b tok, [])))))
        = [Some (''Bearer '' @ tok)]
   \<and> map authorization (issued (snd (snd (list_models_sync l (BedrockOpenAIClientSync_init b tok, [])))))
        = [Some (''Bearer '' @ tok)]"
  by (simp add: list_models_state list_models_sync_state chat_completion_state
      chat_completion_sync_state authorization_def BedrockOpenAIClient_init_def
      BedrockOpenAIClientSync_init_def)

text \<open>
  Against C7 as stated: three calls that differ in the client, in every argument the method
  accepts and in what the transport does all post under the timeout 30. Neither constructor
  and neither method has a parameter for it.
\<close>

theorem timeout_ignores_every_argument:
  "map timeout (issued (snd (snd (chat_completion (mock (Responded \<lparr>status_code = 200, text_of = ''{}''\<rparr>))
        messages ''gpt-3.5-turbo'' 0.7 1000 False
        (BedrockOpenAIClient_init ''https://openai.ez2.click/'' ''bedrock-api-key-abc'', []))))) = [30]
   \<and> map timeout (issued (snd (snd (chat_completion (mock (Failed (TimeoutException ''timed out'')))
        vision_messages ''claude-3-sonnet'' 1.5 60 True
        (BedrockOpenAIClient_init ''http://localhost:8000'' ''bedrock-api-key-xyz'', []))))) = [30]
   \<and> map timeout (issued (snd (snd (chat_completion_sync (mock (Failed (TimeoutException ''timed out'')))
        conversation ''gpt-4'' 0.5 60
        (BedrockOpenAIClientSync_init ''http://localhost:8000'' ''bedrock-api-key-xyz'', []))))) = [30]"
  by (simp add: chat_completion_state chat_completion_sync_state)

text \<open>
  C7, amended: the timeout under which \<^verbatim>\<open>chat_completion\<close> performs its POST is the constant
  30, whatever the caller passes; the POST goes to \<^verbatim>\<open>{base_url}/v1/chat/completions\<close> with the
  headers \<^verbatim>\<open>Content-Type: application/json\<close> and \<^verbatim>\<open>Authorization: Bearer <token>\<close>. Both clients.
\<close>

theorem chat_completion_timeout_is_fixed:
  "snd (snd (chat_completion l ms m t k s (BedrockOpenAIClient_init b tok, evs)))
     = evs @ [Issued \<lparr>verb = POST,
         url = base_url (BedrockOpenAIClient_init b tok) @ ''/v1/chat/completions'',
         req_headers = [(''Content-Type'', ''application/json''), (''Authorization'', ''Bearer '' @ tok)],
         json_body = Some (JObj [(''model'', JStr m), (''messages'', JArr ms),
           (''temperature'', JFloat t), (''max_tokens'', JInt k), (''stream'', JBool s)]),
         timeout = 30\<rparr>]
   \<and> snd (snd (chat_completion_sync l ms m t k (BedrockOpenAIClientSync_init b tok, evs)))
     = evs @ [Issued \<lparr>verb = POST,
         url = base_url (BedrockOpenAIClientSync_init b tok) @ ''/v1/chat/completions'',
         req_headers = [(''Content-Type'', ''application/json''), (''Authorization'', ''Bearer '' @ tok)],
         json_body = Some (JObj [(''model'', JStr m), (''messages'', JArr ms),
           (''temperature'', JFloat t), (''max_tokens'', JInt k)]),
         timeout = 30\<rparr>]"
  by (simp add: chat_completion_state chat_completion_sync_state BedrockOpenAIClient_init_def
      BedrockOpenAIClientSync_init_def)

text \<open>
  C8: after any sequence of \<^verbatim>\<open>chat_completion\<close> and \<^verbatim>\<open>list_models\<close> calls on a client object,
  whatever the transport did and whatever the calls raised, the object's \<^verbatim>\<open>base_url\<close> and
  \<^verbatim>\<open>headers\<close> are what \<^verbatim>\<open>__init__\<close> stored. Both clients.
\<close>

theorem client_unchanged_by_calls:
  "base_url (fst (snd (run_calls l cs (BedrockOpenAIClient_init b tok, evs))))
     = base_url (BedrockOpenAIClient_init b tok)
   \<and> headers (fst (snd (run_calls l cs (BedrockOpenAIClient_init b tok, evs))))
     = headers (BedrockOpenAIClient_init b tok)
   \<and> base_url (fst (snd (run_calls_sync l cs' (BedrockOpenAIClientSync_init b tok, evs))))
     = base_url (BedrockOpenAIClientSync_init b tok)
   \<and> headers (fst (snd (run_calls_sync l cs' (BedrockOpenAIClientSync_init b tok, evs))))
     = headers (BedrockOpenAIClientSync_init b tok)"
  by (simp add: run_calls_client run_calls_sync_client)

text \<open>
  C9: when \<^verbatim>\<open>AWS_BEARER_TOKEN_BEDROCK\<close> is absent from the environment (or holds the
  placeholder itself), so that the token is the built-in placeholder, each driver prints
  the three lines of the warning and returns: it does not raise, and the log gains no
  constructed client and no request.
\<close>

theorem placeholder_token_only_warns:
  assumes "environ ''AWS_BEARER_TOKEN_BEDROCK'' = None
           \<or> environ ''AWS_BEARER_TOKEN_BEDROCK'' = Some default_token"
  shows "main environ l evs = (Inr (), evs @ map Printed token_warning)
       \<and> main_sync environ l evs = (Inr (), evs @ map Printed token_warning)"
proof -
  from assms have tok: "getenv environ ''AWS_BEARER_TOKEN_BEDROCK'' default_token = default_token"
    by (auto simp add: getenv_def)
  have pr: "foldl (\<lambda>evs s. print_line s evs) evs token_warning = evs @ map Printed token_warning"
    by (simp add: token_warning_def print_line_def)
  show ?thesis
    by (simp add: main_def main_sync_def Let_def tok pr)
qed

text \<open>The empty environment: three lines printed, nothing issued.\<close>

theorem placeholder_token_only_warns_witness:
  "main Map.empty (mock (Failed (NetworkError ''unreachable''))) [] = (Inr (), map Printed token_warning)
   \<and> main_sync Map.empty (mock (Failed (NetworkError ''unreachable''))) [] = (Inr (), map Printed token_warning)
   \<and> issued (map Printed token_warning) = []
   \<and> length token_warning = 3"
  using placeholder_token_only_warns [of Map.empty "mock (Failed (NetworkError ''unreachable''))" "[]"]
  by (simp add: token_warning_def)

end
